theory Spec2Isabelle
  imports Complex_Main "HOL-Library.AList" "HOL-Library.Char_ord" "HOL-Library.List_Lexorder"
begin

section \<open>Common Python notions\<close>

text \<open>
  Exceptions of the Python sources are values: a function that may raise returns
  \<open>error + 'a\<close>, with \<open>Inl\<close> for the raised exception.
\<close>

datatype error = ValueError | IndexError | ZeroDivisionError | TypeError | AttributeError | RuntimeError

section \<open>Python strings and dictionaries\<close>

text \<open>
  A Python \<open>str\<close> is a \<open>string\<close>; a character is its code point, here below 256, so that
  the sign \<open>\<plusminus>\<close> (U+00B1) is the one character \<open>CHR 0xB1\<close>. A \<open>dict\<close> is an association list
  in insertion order with distinct keys: \<open>d[k] = v\<close> is \<open>AList.update k v d\<close> (an existing key
  keeps its place, a new one goes last), \<open>d.get(k, default)\<close> is \<open>dict_get\<close>, \<open>k in d\<close> is
  \<open>map_of d k \<noteq> None\<close> and \<open>len(d)\<close> is \<open>length d\<close>.
\<close>

type_synonym ('k, 'v) dict = "('k \<times> 'v) list"

definition dict_get :: "('k, 'v) dict \<Rightarrow> 'k \<Rightarrow> 'v \<Rightarrow> 'v" where
  "dict_get d k dflt = (case map_of d k of None \<Rightarrow> dflt | Some v \<Rightarrow> v)"

definition digit_char :: "nat \<Rightarrow> char" where
  "digit_char d = ''0123456789'' ! d"

text \<open>\<open>str(n)\<close> of a natural number: its decimal digits.\<close>

function str :: "nat \<Rightarrow> string" where
  "str n = (if n < 10 then [digit_char n] else str (n div 10) @ [digit_char (n mod 10)])"
  by pat_completeness auto
termination
  by (relation "measure id") auto

declare str.simps [simp del]

text \<open>
  \<open>s.upper()\<close> on the ASCII range (answer tokens are ASCII letters, digits and signs);
  \<open>s.lower()\<close> on all code points below 256, which Python's lower-casing maps to code
  points below 256.
\<close>

definition upper_char :: "char \<Rightarrow> char" where
  "upper_char c =
     (let n = of_char c :: nat in if 97 \<le> n \<and> n \<le> 122 then char_of (n - 32) else c)"

definition upper :: "string \<Rightarrow> string" where
  "upper s = map upper_char s"



text \<open>\<open>range(1, n)\<close> for an integer bound, as a list of naturals.\<close>

definition range1 :: "int \<Rightarrow> nat list" where
  "range1 n = [1..<nat n]"

section \<open>results/improved_position_mapper.py\<close>

text \<open>
  The calibrated boundaries and the choices, as the literals of the source. The
  boundaries are \<open>np.float64\<close> values and the position holds integers (\<open>List[int]\<close>).
  Python compares an integer with a float exactly, and each literal lies strictly between
  the same two consecutive integers as the double nearest to it (1001.0 is a double), so
  for an integer \<open>x\<close> the comparison \<open>x < boundary\<close> is the one with the decimal value.
\<close>

definition boundaries :: "rat list" where
  "boundaries = [258.6, 629.8, 1001.0, 1372.2, 1743.3999999999999]"

definition choices :: "string list" where
  "choices = [''A'', ''B'', ''C'', ''D'', ''E'']"

text \<open>
  The loop \<open>for i, boundary in enumerate(boundaries)\<close>: the first boundary above \<open>x\<close> returns
  \<open>choices[i]\<close>; falling out of the loop returns \<open>"E"\<close>.
\<close>

fun scan_boundaries :: "int \<Rightarrow> nat \<Rightarrow> rat list \<Rightarrow> error + string" where
  "scan_boundaries x i [] = Inr ''E''"
| "scan_boundaries x i (boundary # rest) =
     (if of_int x < boundary
      then (if i < length choices then Inr (choices ! i) else Inl IndexError)
      else scan_boundaries x (Suc i) rest)"

text \<open>\<open>x, y = position\<close> raises ValueError unless the position has exactly two entries.\<close>

fun improved_position_to_choice :: "int \<Rightarrow> int list \<Rightarrow> error + string" where
  "improved_position_to_choice question_num [x, y] = scan_boundaries x 0 boundaries"
| "improved_position_to_choice question_num position = Inl ValueError"

section \<open>answer_key_manager.py: AnswerKeyBuilder\<close>

text \<open>
  The builder's \<open>config\<close>: the sections \<open>exam_info\<close>, \<open>scoring\<close> and \<open>answers\<close>. The sections
  \<open>bubble_mapping\<close> and \<open>grid_layout\<close> are constants that no method modelled here reads.
\<close>

record exam_info =
  name :: string
  date :: string
  total_questions :: int
  choices_per_question :: int
  passing_score :: int

record scoring =
  correct_points :: int
  incorrect_points :: int
  blank_points :: int

record config =
  exam_info :: exam_info
  scoring :: scoring
  answers :: "(string, string) dict"

text \<open>\<open>__init__\<close>; the date is today's, taken as a parameter.\<close>

definition AnswerKeyBuilder_init :: "string \<Rightarrow> config" where
  "AnswerKeyBuilder_init today =
     \<lparr>exam_info = \<lparr>name = '''', date = today, total_questions = 100,
                   choices_per_question = 5, passing_score = 60\<rparr>,
      scoring = \<lparr>correct_points = 1, incorrect_points = 0, blank_points = 0\<rparr>,
      answers = []\<rparr>"

definition set_exam_info :: "config \<Rightarrow> string \<Rightarrow> int \<Rightarrow> int \<Rightarrow> config" where
  "set_exam_info cfg nm total_q passing =
     cfg\<lparr>exam_info := (exam_info cfg)\<lparr>name := nm, total_questions := total_q,
                                       passing_score := passing\<rparr>\<rparr>"

text \<open>
  \<open>set_answers_from_pattern\<close>: the loop over \<open>range(1, total_q + 1)\<close>; \<open>% len(pattern)\<close>
  raises ZeroDivisionError on the empty pattern.
\<close>

fun pattern_loop :: "string \<Rightarrow> nat list \<Rightarrow> (string, string) dict \<Rightarrow> error + (string, string) dict" where
  "pattern_loop pattern [] ans = Inr ans"
| "pattern_loop pattern (i # rest) ans =
     (if length pattern = 0 then Inl ZeroDivisionError
      else let pattern_index = (i - 1) mod length pattern
           in pattern_loop pattern rest
                (AList.update (str i) (upper [pattern ! pattern_index]) ans))"

definition set_answers_from_pattern :: "config \<Rightarrow> string \<Rightarrow> error + config" where
  "set_answers_from_pattern cfg pattern =
     (let total_q = total_questions (exam_info cfg)
      in case pattern_loop pattern (range1 (total_q + 1)) [] of
           Inl e \<Rightarrow> Inl e
         | Inr ans \<Rightarrow> Inr (cfg\<lparr>answers := ans\<rparr>))"

text \<open>
  \<open>set_answers_from_list\<close>: the loop over
  \<open>range(1, min(len(answers_list) + 1, total_q + 1))\<close>, with both branches of its body.
\<close>

fun list_loop :: "string list \<Rightarrow> nat list \<Rightarrow> (string, string) dict \<Rightarrow> (string, string) dict" where
  "list_loop answers_list [] ans = ans"
| "list_loop answers_list (i # rest) ans =
     (if i \<le> length answers_list
      then list_loop answers_list rest
             (AList.update (str i) (upper (answers_list ! (i - 1))) ans)
      else list_loop answers_list rest (AList.update (str i) ''A'' ans))"

definition set_answers_from_list :: "config \<Rightarrow> string list \<Rightarrow> config" where
  "set_answers_from_list cfg answers_list =
     (let total_q = total_questions (exam_info cfg)
      in cfg\<lparr>answers :=
           list_loop answers_list
             (range1 (min (int (length answers_list) + 1) (total_q + 1))) []\<rparr>)"


section \<open>simple_demo.py: SimpleHybridDemo\<close>


text \<open>
  \<open>int(a / b)\<close> for integers \<open>a\<close> and \<open>b > 0\<close>: the quotient truncated towards zero (the
  float quotient of pixel coordinates is exact enough never to cross an integer).
\<close>

definition int_trunc :: "int \<Rightarrow> int \<Rightarrow> int" where
  "int_trunc a b = (if 0 \<le> a then a div b else - ((- a) div b))"

text \<open>\<open>s.rstrip()\<close>: the white space of Python among the code points below 256.\<close>

definition is_space :: "char \<Rightarrow> bool" where
  "is_space c = (let n = of_char c :: nat
                 in (9 \<le> n \<and> n \<le> 13) \<or> (28 \<le> n \<and> n \<le> 32) \<or> n = 133 \<or> n = 160)"

definition rstrip :: "string \<Rightarrow> string" where
  "rstrip s = rev (dropWhile is_space (rev s))"

subsection \<open>convert_bubbles_to_answers\<close>

text \<open>\<open>question_num = max(1, min(15, int(y / 100) + 1))\<close>\<close>

definition question_num_of :: "int \<Rightarrow> nat" where
  "question_num_of y = nat (max 1 (min 15 (int_trunc y 100 + 1)))"

text \<open>The first loop: bubbles are appended to the list of their question, in order.\<close>

fun group_bubbles ::
  "(int \<times> int) list \<Rightarrow> (nat, (int \<times> int) list) dict \<Rightarrow> (nat, (int \<times> int) list) dict" where
  "group_bubbles [] questions = questions"
| "group_bubbles ((x, y) # rest) questions =
     (let question_num = question_num_of y;
          questions1 = (if map_of questions question_num = None
                        then AList.update question_num [] questions else questions)
      in group_bubbles rest
           (AList.update question_num (dict_get questions1 question_num [] @ [(x, y)])
              questions1))"

text \<open>
  \<open>column_chars\<close>: the thirteen one-character strings of the source, the three signs and
  the ten digits.
\<close>

definition column_chars :: "string list" where
  "column_chars = [[CHR 0xB1], ''-'', ''+''] @ map (\<lambda>c. [c]) ''0123456789''"

text \<open>\<open>char_idx = min(12, max(0, int(x / 200)))\<close>\<close>

definition char_idx_of :: "int \<Rightarrow> nat" where
  "char_idx_of x = nat (min 12 (max 0 (int_trunc x 200)))"

text \<open>The inner loop \<open>for x, y in bubble_positions[:3]: answer += column_chars[char_idx]\<close>.\<close>

fun read_answer :: "(int \<times> int) list \<Rightarrow> string \<Rightarrow> string" where
  "read_answer [] answer = answer"
| "read_answer ((x, y) # rest) answer =
     read_answer rest (answer @ column_chars ! char_idx_of x)"

text \<open>
  The second loop, over \<open>questions.items()\<close>: the list is sorted by x (Python's sort is
  stable, as \<open>sort_key\<close> is), its first three bubbles are read, and the answer is stored
  under \<open>str(q_num)\<close>.
\<close>

fun answers_loop ::
  "(nat, (int \<times> int) list) dict \<Rightarrow> (string, string) dict \<Rightarrow> (string, string) dict" where
  "answers_loop [] ans = ans"
| "answers_loop ((q_num, bubble_positions) # rest) ans =
     (let sorted_positions = sort_key fst bubble_positions;
          answer = read_answer (take 3 sorted_positions) ''''
      in answers_loop rest
           (AList.update (str q_num) (if rstrip answer \<noteq> [] then rstrip answer else ''0'') ans))"

definition convert_bubbles_to_answers ::
  "(string, (int \<times> int) list) dict \<Rightarrow> (string, string) dict" where
  "convert_bubbles_to_answers detected_bubbles =
     (let bubbles = dict_get detected_bubbles ''bubbles'' []
      in answers_loop (group_bubbles bubbles []) [])"

subsection \<open>calculate_score\<close>







subsection \<open>The classification and the tokens in the words of the specification\<close>





text \<open>
  The marks of a sheet that fall into the row of question \<open>q\<close>, in the order of detection,
  and the token read from a row: its marks sorted by x, the first three of them mapped to
  their column characters, concatenated from left to right.
\<close>

definition marks_in_row :: "nat \<Rightarrow> (int \<times> int) list \<Rightarrow> (int \<times> int) list" where
  "marks_in_row q bubbles = filter (\<lambda>(x, y). question_num_of y = q) bubbles"

definition row_token :: "(int \<times> int) list \<Rightarrow> string" where
  "row_token row =
     concat (map (\<lambda>(x, y). column_chars ! char_idx_of x) (take 3 (sort_key fst row)))"

section \<open>calibrate_positions.py\<close>








subsection \<open>generate_numeric_mapping\<close>

text \<open>
  The labels. The first literal of the source holds the two characters U+00AC and U+00B1
  (the bytes C2 AC C2 B1), not the sign \<open>\<plusminus>\<close> alone.
\<close>

definition labels :: "string list" where
  "labels = [[CHR 0xAC, CHR 0xB1], ''-'', ''+''] @ map str [0..<10]"

fun mapping_loop ::
  "rat \<Rightarrow> rat \<Rightarrow> nat \<Rightarrow> string list \<Rightarrow> (string, rat \<times> rat) dict \<Rightarrow> (string, rat \<times> rat) dict" where
  "mapping_loop x_min column_width i [] mapping = mapping"
| "mapping_loop x_min column_width i (label # rest) mapping =
     (let start_x = x_min + of_nat i * column_width;
          end_x = x_min + (of_nat i + 1) * column_width
      in mapping_loop x_min column_width (Suc i) rest (AList.update label (start_x, end_x) mapping))"

definition generate_numeric_mapping :: "rat \<Rightarrow> rat \<Rightarrow> (string, rat \<times> rat) dict" where
  "generate_numeric_mapping x_min x_max =
     (let x_range = x_max - x_min;
          num_columns = 13;
          column_width = x_range / num_columns
      in mapping_loop x_min column_width 0 labels [])"

subsection \<open>analyze_numeric_positions\<close>

record analysis_result =
  sheet_count :: nat
  total_marks_analyzed :: nat
  x_coordinate_range :: "rat \<times> rat"
  y_coordinate_range :: "rat \<times> rat"
  column_width :: rat
  sign_boundaries :: "(string, rat) dict"
  digit_boundaries :: "(string, rat) dict"
  recommended_mapping :: "(string, rat \<times> rat) dict"





subsection \<open>Views of the calibration used to state its properties\<close>




text \<open>The symbol of a mapping whose range \<open>[start, end)\<close> contains \<open>x\<close>, the first if several do.\<close>

definition symbol_at :: "(string, rat \<times> rat) dict \<Rightarrow> rat \<Rightarrow> string option" where
  "symbol_at mapping x =
     map_option fst (find (\<lambda>(label, start_x, end_x). start_x \<le> x \<and> x < end_x) mapping)"

section \<open>Batch processing: hybrid_scorer.py and simple_demo.py\<close>

text \<open>
  What bubble detection returns: a dictionary with the list of bubble centres.
\<close>

type_synonym bubbles = "(string, (int \<times> int) list) dict"

subsection \<open>HybridOMRScorer\<close>








subsection \<open>SimpleHybridDemo\<close>






section \<open>config_converter.py: ConfigConverter\<close>











subsection \<open>c_json_to_python_config\<close>




subsection \<open>python_to_c_json\<close>





subsection \<open>The round trip and the views used to state its properties\<close>






section \<open>Properties of the calibrated letter mapping\<close>

lemma of_int_less_between:
  fixes b :: rat
  assumes "of_int n < b" "b \<le> of_int n + 1"
  shows "of_int x < b \<longleftrightarrow> x \<le> n"
proof
  assume "of_int x < b"
  with assms(2) have "(of_int x :: rat) < of_int (n + 1)" by simp
  then have "x < n + 1" by (simp only: of_int_less_iff)
  then show "x \<le> n" by simp
next
  assume "x \<le> n"
  then have "(of_int x :: rat) \<le> of_int n" by (simp only: of_int_le_iff)
  with assms(1) show "of_int x < b" by simp
qed

lemma boundary_cmp:
  "of_int x < (258.6 :: rat) \<longleftrightarrow> x \<le> 258"
  "of_int x < (629.8 :: rat) \<longleftrightarrow> x \<le> 629"
  "of_int x < (1001.0 :: rat) \<longleftrightarrow> x \<le> 1000"
  "of_int x < (1372.2 :: rat) \<longleftrightarrow> x \<le> 1372"
  "of_int x < (1743.3999999999999 :: rat) \<longleftrightarrow> x \<le> 1743"
  "of_int x < (1743.4 :: rat) \<longleftrightarrow> x \<le> 1743"
  by (rule of_int_less_between; simp)+

lemma all_less_5: "(\<forall>i<5::nat. P i) \<longleftrightarrow> P 0 \<and> P 1 \<and> P 2 \<and> P 3 \<and> P 4"
proof -
  have "\<And>i::nat. i < 5 \<longleftrightarrow> i = 0 \<or> i = 1 \<or> i = 2 \<or> i = 3 \<or> i = 4" by auto
  then show ?thesis by auto
qed

lemma improved_position_to_choice_cases:
  "improved_position_to_choice q [x, y] =
     Inr (if x \<le> 258 then ''A'' else if x \<le> 629 then ''B'' else if x \<le> 1000 then ''C''
          else if x \<le> 1372 then ''D'' else if x \<le> 1743 then ''E'' else ''E'')"
  by (simp add: boundaries_def choices_def boundary_cmp)

lemma first_boundary_choice:
  fixes x :: int
  defines "bs \<equiv> [258.6, 629.8, 1001.0, 1372.2, 1743.4 :: rat]"
  shows "\<forall>i < 5. of_int x < bs ! i \<and> (\<forall>j < i. \<not> of_int x < bs ! j)
            \<longrightarrow> improved_position_to_choice q [x, y] = Inr ([''A'', ''B'', ''C'', ''D'', ''E''] ! i)"
  unfolding bs_def all_less_5 improved_position_to_choice_cases
  apply (intro conjI impI)
  subgoal by (simp add: boundary_cmp)
  subgoal by (auto simp add: boundary_cmp)
  subgoal
    apply (elim conjE) apply (frule spec[of _ 0]) apply (drule spec[of _ 1])
    by (simp add: boundary_cmp)
  subgoal
    apply (elim conjE) apply (frule spec[of _ 0]) apply (frule spec[of _ 1])
    apply (drule spec[of _ 2])
    by (simp add: boundary_cmp)
  subgoal
    apply (elim conjE) apply (drule spec[of _ 3])
    by (simp add: boundary_cmp)
  done

text \<open>
  Claim C1. For every position \<open>[x, y]\<close> the function returns the choice of the first
  calibrated boundary, in the order 258.6, 629.8, 1001.0, 1372.2, 1743.4, that strictly
  exceeds \<open>x\<close>, and \<open>E\<close> when \<open>x\<close> is at or beyond the last boundary; it never fails on a
  position. In particular 100 gives A, 1000 gives C and 2000 gives E.
\<close>

theorem improved_position_to_choice_first_boundary:
  fixes x y q :: int
  defines "bs \<equiv> [258.6, 629.8, 1001.0, 1372.2, 1743.4 :: rat]"
  shows "(\<forall>i < 5. of_int x < bs ! i \<and> (\<forall>j < i. \<not> of_int x < bs ! j)
            \<longrightarrow> improved_position_to_choice q [x, y] = Inr ([''A'', ''B'', ''C'', ''D'', ''E''] ! i))
    \<and> (last bs \<le> of_int x \<longrightarrow> improved_position_to_choice q [x, y] = Inr ''E'')
    \<and> improved_position_to_choice q [100, y] = Inr ''A''
    \<and> improved_position_to_choice q [1000, y] = Inr ''C''
    \<and> improved_position_to_choice q [2000, y] = Inr ''E''"
proof (intro conjI)
  show "\<forall>i < 5. of_int x < bs ! i \<and> (\<forall>j < i. \<not> of_int x < bs ! j)
            \<longrightarrow> improved_position_to_choice q [x, y] = Inr ([''A'', ''B'', ''C'', ''D'', ''E''] ! i)"
    unfolding bs_def by (rule first_boundary_choice)
  show "last bs \<le> of_int x \<longrightarrow> improved_position_to_choice q [x, y] = Inr ''E''"
    unfolding bs_def improved_position_to_choice_cases
    by simp
  show "improved_position_to_choice q [100, y] = Inr ''A''"
    "improved_position_to_choice q [1000, y] = Inr ''C''"
    "improved_position_to_choice q [2000, y] = Inr ''E''"
    unfolding improved_position_to_choice_cases by simp_all
qed

theorem improved_position_to_choice_first_boundary_witness:
  "of_int 700 < [258.6, 629.8, 1001.0, 1372.2, 1743.4 :: rat] ! 2
   \<and> \<not> of_int 700 < [258.6, 629.8, 1001.0, 1372.2, 1743.4 :: rat] ! 0
   \<and> \<not> of_int 700 < [258.6, 629.8, 1001.0, 1372.2, 1743.4 :: rat] ! 1
   \<and> improved_position_to_choice 7 [700, 40] = Inr ''C''
   \<and> last [258.6, 629.8, 1001.0, 1372.2, 1743.4 :: rat] \<le> of_int 1744
   \<and> improved_position_to_choice 7 [1744, 40] = Inr ''E''"
proof -
  have two: "\<And>j::nat. j < 2 \<longleftrightarrow> j = 0 \<or> j = 1"
    by auto
  have h1: "of_int 700 < [258.6, 629.8, 1001.0, 1372.2, 1743.4 :: rat] ! 2
      \<and> (\<forall>j < 2. \<not> of_int 700 < [258.6, 629.8, 1001.0, 1372.2, 1743.4 :: rat] ! j)"
    by (simp add: two)
  have h2: "last [258.6, 629.8, 1001.0, 1372.2, 1743.4 :: rat] \<le> of_int 1744"
    by simp
  have "2 < (5::nat)" by simp
  with improved_position_to_choice_first_boundary [of 700 7 40] h1
  have "improved_position_to_choice 7 [700, 40] = Inr ([''A'', ''B'', ''C'', ''D'', ''E''] ! 2)"
    by blast
  then have c: "improved_position_to_choice 7 [700, 40] = Inr ''C''"
    by simp
  from improved_position_to_choice_first_boundary [of 1744 7 40] h2
  have "improved_position_to_choice 7 [1744, 40] = Inr ''E''"
    by blast
  with c h1 h2 show ?thesis
    by simp
qed

text \<open>
  Claim C10. The returned choice depends on the x component of the position only: two
  calls with the same \<open>x\<close> return the same choice, whatever the question numbers and the y
  components are.
\<close>

theorem improved_position_to_choice_depends_on_x_only:
  "improved_position_to_choice q1 [x, y1] = improved_position_to_choice q2 [x, y2]"
  by simp

section \<open>Properties of the answer key builder\<close>

lemma str_small: "str 0 = ''0''" "str (Suc 0) = ''1''" "str 1 = ''1''" "str 2 = ''2''" "str 3 = ''3''"
  by (simp_all add: str.simps digit_char_def)

lemma length_str_pos: "0 < length (str n)"
  by (subst str.simps) simp

lemma digit_char_inj: "a < 10 \<Longrightarrow> b < 10 \<Longrightarrow> digit_char a = digit_char b \<Longrightarrow> a = b"
proof -
  have ten: "\<And>i::nat. i < 10 \<longleftrightarrow> i \<in> {0, 1, 2, 3, 4, 5, 6, 7, 8, 9}"
    by auto
  show "a < 10 \<Longrightarrow> b < 10 \<Longrightarrow> digit_char a = digit_char b \<Longrightarrow> a = b"
    unfolding ten digit_char_def by auto
qed

lemma str_inj: "str m = str n \<Longrightarrow> m = n"
proof (induction m arbitrary: n rule: str.induct)
  case (1 m)
  show ?case
  proof (cases "m < 10")
    case True
    then have m1: "str m = [digit_char m]"
      by (subst str.simps) simp
    show ?thesis
    proof (cases "n < 10")
      case True
      then have "str n = [digit_char n]"
        by (subst str.simps) simp
      with m1 "1.prems" \<open>m < 10\<close> True show ?thesis
        by (simp add: digit_char_inj)
    next
      case False
      then have "str n = str (n div 10) @ [digit_char (n mod 10)]"
        by (subst str.simps) simp
      then have "1 < length (str n)"
        using length_str_pos [of "n div 10"] by simp
      with m1 "1.prems" show ?thesis
        by simp
    qed
  next
    case False
    then have m2: "str m = str (m div 10) @ [digit_char (m mod 10)]"
      by (subst str.simps) simp
    show ?thesis
    proof (cases "n < 10")
      case True
      then have "str n = [digit_char n]"
        by (subst str.simps) simp
      moreover have "1 < length (str m)"
        using m2 length_str_pos [of "m div 10"] by simp
      ultimately show ?thesis
        using "1.prems" by simp
    next
      case n: False
      then have "str n = str (n div 10) @ [digit_char (n mod 10)]"
        by (subst str.simps) simp
      with m2 "1.prems" have eq: "str (m div 10) = str (n div 10)"
        and d: "digit_char (m mod 10) = digit_char (n mod 10)"
        by simp_all
      from "1.IH" [OF False eq] have "m div 10 = n div 10" .
      moreover from d have "m mod 10 = n mod 10"
        by (intro digit_char_inj) simp_all
      ultimately show ?thesis
        by (metis div_mult_mod_eq)
    qed
  qed
qed

lemma dom_map_of_update: "dom (map_of (AList.update k v al)) = insert k (dom (map_of al))"
  by (simp add: update_conv')

lemma list_loop_dom:
  "dom (map_of (list_loop answers_list idxs ans)) = dom (map_of ans) \<union> str ` set idxs"
  by (induction idxs arbitrary: ans) (simp_all add: dom_map_of_update)

lemma set_answers_from_list_dom:
  "dom (map_of (answers (set_answers_from_list cfg answers_list)))
     = str ` {q. 1 \<le> q \<and> q \<le> length answers_list \<and> int q \<le> total_questions (exam_info cfg)}"
proof -
  have "{1..<nat (min (int (length answers_list) + 1) (total_questions (exam_info cfg) + 1))}
      = {q. 1 \<le> q \<and> q \<le> length answers_list \<and> int q \<le> total_questions (exam_info cfg)}"
    by auto
  then show ?thesis
    by (simp add: set_answers_from_list_def Let_def list_loop_dom range1_def)
qed

text \<open>
  Claim C5 asks that every question 1..total_questions receives a token, the filler \<open>A\<close>
  when the list is short. The loop of \<open>set_answers_from_list\<close> ends with the list, so the
  code does the opposite: every question beyond the end of a short list has no entry.
\<close>

theorem set_answers_from_list_leaves_gaps:
  assumes "length answers_list < q" and "int q \<le> total_questions (exam_info cfg)"
  shows "map_of (answers (set_answers_from_list cfg answers_list)) (str q) = None"
proof -
  have "str q \<notin> str ` {q. 1 \<le> q \<and> q \<le> length answers_list \<and> int q \<le> total_questions (exam_info cfg)}"
    using assms(1) by (auto dest: str_inj)
  then show ?thesis
    unfolding set_answers_from_list_dom [symmetric] by (simp add: domIff)
qed

lemma upper_b: "upper ''b'' = ''B''" by code_simp

theorem set_answers_from_list_leaves_gaps_witness:
  "length [''b''] < (2::nat) \<and>
   int 2 \<le> total_questions (exam_info (set_exam_info (AnswerKeyBuilder_init ''2025-01-01'') ''Quiz'' 3 60)) \<and>
   answers (set_answers_from_list (set_exam_info (AnswerKeyBuilder_init ''2025-01-01'') ''Quiz'' 3 60) [''b''])
     = [(''1'', ''B'')] \<and>
   map_of (answers (set_answers_from_list (set_exam_info (AnswerKeyBuilder_init ''2025-01-01'') ''Quiz'' 3 60) [''b'']))
     (str 2) = None"
proof -
  let ?cfg = "set_exam_info (AnswerKeyBuilder_init ''2025-01-01'') ''Quiz'' 3 60"
  have h1: "length [''b''] < (2::nat)" by simp
  have h2: "int 2 \<le> total_questions (exam_info ?cfg)"
    by (simp add: set_exam_info_def AnswerKeyBuilder_init_def)
  have e: "answers (set_answers_from_list ?cfg [''b'']) = [(''1'', ''B'')]"
    by (simp add: set_answers_from_list_def set_exam_info_def AnswerKeyBuilder_init_def
        range1_def upt_rec str_small upper_b)
  from set_answers_from_list_leaves_gaps [OF h1 h2] h1 h2 e show ?thesis
    by simp
qed

text \<open>The sibling helper \<open>set_answers_from_pattern\<close> does cover every question.\<close>

lemma pattern_loop_ok:
  "pattern \<noteq> [] \<Longrightarrow> \<exists>ans'. pattern_loop pattern idxs ans = Inr ans'
      \<and> dom (map_of ans') = dom (map_of ans) \<union> str ` set idxs"
proof (induction idxs arbitrary: ans)
  case Nil
  then show ?case by simp
next
  case (Cons i idxs)
  from Cons.IH [OF Cons.prems, of "AList.update (str i) (upper [pattern ! ((i - 1) mod length pattern)]) ans"]
  show ?case using Cons.prems by (simp add: dom_map_of_update Let_def)
qed

lemma set_answers_from_pattern_covers:
  "pattern \<noteq> [] \<Longrightarrow> \<exists>cfg'. set_answers_from_pattern cfg pattern = Inr cfg'
      \<and> dom (map_of (answers cfg')) = str ` {q. 1 \<le> q \<and> int q \<le> total_questions (exam_info cfg)}"
proof -
  assume p: "pattern \<noteq> []"
  have s: "{1..<nat (total_questions (exam_info cfg) + 1)} = {q. 1 \<le> q \<and> int q \<le> total_questions (exam_info cfg)}"
    by auto
  from pattern_loop_ok [OF p, of "range1 (total_questions (exam_info cfg) + 1)" "[]"]
  show ?thesis
    by (auto simp: set_answers_from_pattern_def Let_def range1_def s)
qed

section \<open>Properties of the demo scoring\<close>














section \<open>Properties of the grouping of marks into questions\<close>

lemma question_num_of_floor:
  "int (question_num_of y) = max 1 (min 15 (y div 100 + 1))"
  "int (question_num_of y) = max 1 (min 15 (\<lfloor>rat_of_int y / 100\<rfloor> + 1))"
proof -
  show a: "int (question_num_of y) = max 1 (min 15 (y div 100 + 1))"
    by (auto simp: question_num_of_def int_trunc_def max_def min_def)
  have "\<lfloor>rat_of_int y / 100\<rfloor> = y div 100"
    using floor_divide_of_int_eq [of y 100, where ?'a = rat] by simp
  with a show "int (question_num_of y) = max 1 (min 15 (\<lfloor>rat_of_int y / 100\<rfloor> + 1))"
    by simp
qed

lemma question_num_of_range: "1 \<le> question_num_of y" "question_num_of y \<le> 15"
  by (auto simp: question_num_of_def max_def min_def)

lemma group_bubbles_spec:
  "distinct (map fst acc) \<Longrightarrow>
   distinct (map fst (group_bubbles bs acc)) \<and>
   map_of (group_bubbles bs acc) q =
     (case map_of acc q of
        None \<Rightarrow> if marks_in_row q bs = [] then None else Some (marks_in_row q bs)
      | Some old \<Rightarrow> Some (old @ marks_in_row q bs))"
proof (induction bs arbitrary: acc)
  case Nil
  then show ?case by (simp add: marks_in_row_def split: option.splits)
next
  case (Cons b bs)
  obtain x y where b: "b = (x, y)" by (cases b)
  let ?qn = "question_num_of y"
  let ?acc1 = "if map_of acc ?qn = None then AList.update ?qn [] acc else acc"
  let ?acc2 = "AList.update ?qn (dict_get ?acc1 ?qn [] @ [(x, y)]) ?acc1"
  have d: "distinct (map fst ?acc2)"
    using Cons.prems by (simp add: distinct_update)
  have m: "map_of ?acc2 q = (if q = ?qn then Some ((case map_of acc q of None \<Rightarrow> [] | Some old \<Rightarrow> old) @ [(x, y)]) else map_of acc q)"
    by (auto simp: update_conv' dict_get_def split: option.splits)
  from Cons.IH [OF d] show ?case
    unfolding b group_bubbles.simps Let_def m
    by (auto simp: marks_in_row_def split: option.splits)
qed

lemma read_answer_concat:
  "read_answer ps answer = answer @ concat (map (\<lambda>(x, y). column_chars ! char_idx_of x) ps)"
  by (induction ps arbitrary: answer) auto

lemma column_char_single: "\<exists>c. column_chars ! char_idx_of x = [c] \<and> \<not> is_space c"
proof -
  have "char_idx_of x < length column_chars"
    by (simp add: char_idx_of_def column_chars_def)
  then have "column_chars ! char_idx_of x \<in> set column_chars"
    by (rule nth_mem)
  moreover have "\<forall>s \<in> set column_chars. \<exists>c. s = [c] \<and> \<not> is_space c"
    by (simp add: column_chars_def is_space_def)
  ultimately show ?thesis
    by blast
qed

lemma rstrip_no_space: "s = [] \<or> \<not> is_space (last s) \<Longrightarrow> rstrip s = s"
  by (cases s rule: rev_cases) (auto simp: rstrip_def)

lemma token_not_stripped:
  assumes "ps \<noteq> []"
  shows "rstrip (row_token ps) = row_token ps \<and> row_token ps \<noteq> []"
proof -
  let ?l = "take 3 (sort_key fst ps)"
  from assms have "?l \<noteq> []"
    by (cases ps) (auto simp: take_Suc_conv_app_nth)
  then obtain l p where l: "?l = l @ [p]"
    by (cases ?l rule: rev_cases) auto
  obtain x y where p: "p = (x, y)" by (cases p)
  from column_char_single [of x] obtain c where c: "column_chars ! char_idx_of x = [c]" "\<not> is_space c"
    by auto
  have t: "row_token ps = concat (map (\<lambda>(x, y). column_chars ! char_idx_of x) l) @ [c]"
    by (simp add: row_token_def l p c)
  then show ?thesis
    using c(2) by (simp add: rstrip_no_space)
qed

lemma str_inj_iff: "str m = str n \<longleftrightarrow> m = n"
  by (auto dest: str_inj)

lemma answers_loop_spec:
  "distinct (map fst qs) \<Longrightarrow> \<forall>(q, ps) \<in> set qs. ps \<noteq> [] \<Longrightarrow>
   map_of (answers_loop qs ans) (str q) =
     (case map_of qs q of None \<Rightarrow> map_of ans (str q) | Some ps \<Rightarrow> Some (row_token ps))"
proof (induction qs arbitrary: ans)
  case Nil
  then show ?case by simp
next
  case (Cons e qs)
  obtain q1 ps1 where e: "e = (q1, ps1)" by (cases e)
  from Cons.prems e have ne: "ps1 \<noteq> []" and d: "distinct (map fst qs)" and notin: "q1 \<notin> fst ` set qs"
    and rest: "\<forall>(q, ps) \<in> set qs. ps \<noteq> []"
    by auto
  from notin have none: "map_of qs q1 = None"
    by (simp add: map_of_eq_None_iff)
  have tok: "(if rstrip (read_answer (take 3 (sort_key fst ps1)) []) \<noteq> [] then rstrip (read_answer (take 3 (sort_key fst ps1)) []) else ''0'') = row_token ps1"
    using token_not_stripped [OF ne] by (simp add: read_answer_concat row_token_def)
  show ?case
    unfolding e answers_loop.simps Let_def tok
    using Cons.IH [OF d rest, of "AList.update (str q1) (row_token ps1) ans"] none
    by (auto simp: update_conv' str_inj_iff split: option.splits)
qed

text \<open>
  Claim C6, as amended. The row of a mark at \<open>(x, y)\<close> is \<open>floor(y / 100) + 1\<close> clamped to
  the range 1..15. The token stored for question \<open>q\<close> is that of the marks in row \<open>q\<close>:
  sorted by ascending x, the first three mapped to their symbols and concatenated from
  left to right; a question without marks has no entry.
\<close>

theorem convert_bubbles_to_answers_rows:
  "int (question_num_of y) = max 1 (min 15 (\<lfloor>rat_of_int y / 100\<rfloor> + 1))
   \<and> map_of (convert_bubbles_to_answers [(''bubbles'', bubbles)]) (str q) =
       (if marks_in_row q bubbles = [] then None
        else Some (row_token (marks_in_row q bubbles)))"
proof -
  let ?qs = "group_bubbles bubbles []"
  from group_bubbles_spec [of "[]" bubbles]
  have d: "distinct (map fst ?qs)"
    and m: "\<And>q. map_of ?qs q = (if marks_in_row q bubbles = [] then None else Some (marks_in_row q bubbles))"
    by simp_all
  have ne: "\<forall>(q, ps) \<in> set ?qs. ps \<noteq> []"
  proof (clarify)
    fix q assume "(q, []) \<in> set ?qs"
    with d have "map_of ?qs q = Some []"
      by simp
    with m [of q] show False
      by (simp split: if_splits)
  qed
  from answers_loop_spec [OF d ne, of "[]" q] m [of q]
  have "map_of (convert_bubbles_to_answers [(''bubbles'', bubbles)]) (str q) =
       (if marks_in_row q bubbles = [] then None else Some (row_token (marks_in_row q bubbles)))"
    by (simp add: convert_bubbles_to_answers_def dict_get_def)
  with question_num_of_floor(2) [of y] show ?thesis
    by simp
qed

text \<open>
  The claim as stated fails: a mark at \<open>y = 250\<close> belongs to question 3, not to
  \<open>floor(250 / 100) = 2\<close>, and a row of four marks gives a token of three symbols.
\<close>

theorem convert_bubbles_to_answers_counterexample:
  "question_num_of 250 = 3 \<and> nat (max 1 (min 15 \<lfloor>rat_of_int 250 / 100\<rfloor>)) = 2
   \<and> convert_bubbles_to_answers [(''bubbles'', [(0, 250)])] = [(''3'', [CHR 0xB1])]
   \<and> convert_bubbles_to_answers [(''bubbles'', [(0, 50), (200, 50), (400, 50), (600, 50)])]
       = [(''1'', [CHR 0xB1, CHR ''-'', CHR ''+''])]"
proof -
  have "\<lfloor>rat_of_int 250 / rat_of_int 100\<rfloor> = 250 div 100"
    by (rule floor_divide_of_int_eq)
  then have "nat (max 1 (min 15 \<lfloor>rat_of_int 250 / 100\<rfloor>)) = 2"
    by simp
  moreover have "question_num_of 250 = 3"
    by code_simp
  moreover have "convert_bubbles_to_answers [(''bubbles'', [(0, 250)])] = [(''3'', [CHR 0xB1])]"
    by code_simp
  moreover have
    "convert_bubbles_to_answers [(''bubbles'', [(0, 50), (200, 50), (400, 50), (600, 50)])]
       = [(''1'', [CHR 0xB1, CHR ''-'', CHR ''+''])]"
    by code_simp
  ultimately show ?thesis
    by simp
qed

section \<open>Properties of the numeric calibration\<close>












text \<open>
  Claim C4. For the range [0, 1300] the thirteen columns are 100 wide. The coordinates
  150 and 1250 map to \<open>-\<close> and \<open>9\<close>; the coordinate 50 maps to the label of the first column,
  which in the source is the two-character string U+00AC U+00B1 and not the sign \<open>\<plusminus>\<close>, for
  which the mapping has no entry.
\<close>

theorem generate_numeric_mapping_0_1300:
  "generate_numeric_mapping 0 1300
     = zip labels (map (\<lambda>i. (of_nat i * 100, of_nat i * 100 + 100)) [0..<13])
   \<and> symbol_at (generate_numeric_mapping 0 1300) 50 = Some [CHR 0xAC, CHR 0xB1]
   \<and> symbol_at (generate_numeric_mapping 0 1300) 150 = Some ''-''
   \<and> symbol_at (generate_numeric_mapping 0 1300) 1250 = Some ''9''
   \<and> map_of (generate_numeric_mapping 0 1300) [CHR 0xB1] = None"
proof -
  have "generate_numeric_mapping 0 1300
     = zip labels (map (\<lambda>i. (of_nat i * 100, of_nat i * 100 + 100)) [0..<13])"
    by code_simp
  moreover have "symbol_at (generate_numeric_mapping 0 1300) 50 = Some [CHR 0xAC, CHR 0xB1]"
    by code_simp
  moreover have "symbol_at (generate_numeric_mapping 0 1300) 150 = Some ''-''"
    by code_simp
  moreover have "symbol_at (generate_numeric_mapping 0 1300) 1250 = Some ''9''"
    by code_simp
  moreover have "map_of (generate_numeric_mapping 0 1300) [CHR 0xB1] = None"
    by code_simp
  ultimately show ?thesis
    by simp
qed





section \<open>Properties of batch processing\<close>








section \<open>Properties of the configuration round trip\<close>












end
